theory Spec2Isabelle
  imports Main "HOL-Library.Multiset"
begin

section \<open>Data model\<close>

subsection \<open>Rows of the message store (models.py, class Message)\<close>

text \<open>
  One row of table \<^verbatim>\<open>messages\<close>. The columns \<^verbatim>\<open>_from\<close> and \<^verbatim>\<open>_to\<close> are written
  \<open>msg_from\<close> and \<open>msg_to\<close>, the primary key \<^verbatim>\<open>id\<close> is \<open>msg_id\<close>.
\<close>

record message =
  msg_id :: int
  msg_from :: string
  msg_to :: string
  content :: string
  created_at :: string
  message_type :: string

text \<open>
  The dictionaries \<^verbatim>\<open>{"role": ..., "content": ...}\<close> that assistant.py builds, both in the
  history loader and as the input of the graph.
\<close>

record chat_message =
  role :: string
  chat_content :: string

text \<open>Exceptions of the program, as values.\<close>

datatype error =
  EnvironmentError
  | RuntimeError
  | DBError
  | GraphError
  | TwilioError
  | FileError
  | ValueError
  | OperationalError
  | HTTPException nat

subsection \<open>Streamed output of the graph (assistant.py, generate\_response)\<close>

text \<open>
  With \<^verbatim>\<open>stream_mode="messages"\<close> a step is a tuple (message\_chunk, metadata). The content of
  a chunk is a string or a list of content blocks; a block is a dict (with or without the
  key \<^verbatim>\<open>'text'\<close>), a plain string, an object with an attribute \<^verbatim>\<open>text\<close>, or anything else.
\<close>

datatype item =
  TextDict string
  | OtherDict
  | StrItem string
  | TextObj string
  | OtherItem

datatype chunk_content =
  Str string
  | Blocks "item list"

datatype message_chunk =
  Chunk chunk_content
  | NoContentAttr

type_synonym metadata = "(string \<times> string) list"

datatype step =
  Tuple message_chunk metadata
  | NotPair

section \<open>Response aggregation (assistant.py, lines 207-235)\<close>

text \<open>
  The body of the inner loop \<^verbatim>\<open>for item in content\<close>: the if/elif chain that appends to
  \<^verbatim>\<open>text_content\<close>.
\<close>

fun add_item :: "string \<Rightarrow> item \<Rightarrow> string" where
  "add_item text_content (TextDict t) = text_content @ t"
| "add_item text_content (StrItem s) = text_content @ s"
| "add_item text_content (TextObj t) = text_content @ t"
| "add_item text_content OtherDict = text_content"
| "add_item text_content OtherItem = text_content"

text \<open>Python truthiness of a chunk's content: a non-empty string or a non-empty list.\<close>

fun truthy :: "chunk_content \<Rightarrow> bool" where
  "truthy (Str s) = (s \<noteq> [])"
| "truthy (Blocks items) = (items \<noteq> [])"

text \<open>\<^verbatim>\<open>str(content).startswith('{')\<close>\<close>

fun startswith_brace :: "string \<Rightarrow> bool" where
  "startswith_brace [] = False"
| "startswith_brace (c # cs) = (c = CHR ''{'')"

text \<open>
  The string that \<^verbatim>\<open>content\<close> holds after the \<^verbatim>\<open>isinstance(content, list)\<close> branch: the
  string itself, or the texts of the list's blocks appended from the empty string.
\<close>

fun extract_text :: "chunk_content \<Rightarrow> string" where
  "extract_text (Str s) = s"
| "extract_text (Blocks items) = foldl add_item [] items"

text \<open>The body of the loop over the steps, on the accumulator \<^verbatim>\<open>final_response\<close>.\<close>

fun process_step :: "string \<Rightarrow> step \<Rightarrow> string" where
  "process_step final_response NotPair = final_response"
| "process_step final_response (Tuple NoContentAttr md) = final_response"
| "process_step final_response (Tuple (Chunk c) md) =
     (if truthy c then
        (let content = extract_text c in
         if content \<noteq> [] \<and> \<not> startswith_brace content
         then final_response @ content
         else final_response)
      else final_response)"

definition aggregate :: "step list \<Rightarrow> string" where
  "aggregate steps = foldl process_step [] steps"

text \<open>
  The specification's reading of the same reduction: the text fragment of a block, the
  fully extracted text of an event, and the reply as the concatenation of the texts of
  the events that are kept.
\<close>

fun item_text :: "item \<Rightarrow> string" where
  "item_text (TextDict t) = t"
| "item_text (StrItem s) = s"
| "item_text (TextObj t) = t"
| "item_text OtherDict = []"
| "item_text OtherItem = []"

fun event_text :: "step \<Rightarrow> string" where
  "event_text NotPair = []"
| "event_text (Tuple NoContentAttr md) = []"
| "event_text (Tuple (Chunk (Str s)) md) = s"
| "event_text (Tuple (Chunk (Blocks items)) md) = concat (map item_text items)"

definition spec_reply :: "step list \<Rightarrow> string" where
  "spec_reply events =
     concat (map event_text (filter (\<lambda>e. \<not> startswith_brace (event_text e)) events))"

section \<open>The outside world as explicit state\<close>

text \<open>
  What the program changes outside itself: the committed rows of table \<^verbatim>\<open>messages\<close>, the
  database sessions it has opened (each open or closed), the number of SELECT queries run
  on the message store, the messages handed to Twilio, the inputs with which the compiled
  graph has been started (message list and thread id), what the runs of the graph have
  done outside the program (the graph is compiled with the checkpointer and its model is
  bound to the search and calendar tools), and the number of calls of
  \<^verbatim>\<open>PostgresSaver.setup\<close>. Output of \<^verbatim>\<open>print\<close> is not modelled.
\<close>

datatype session_state = Open | Closed

text \<open>
  An effect of a run of the graph: a checkpoint written for a thread id, or a tool
  executed (by name).
\<close>

datatype graph_effect =
  CheckpointSaved string
  | ToolExecuted string

record outbound =
  sms_body :: string
  sms_from :: string
  sms_to :: string

record world =
  messages_table :: "message list"
  sessions :: "session_state list"
  history_queries :: nat
  outbox :: "outbound list"
  graph_inputs :: "(chat_message list \<times> string) list"
  graph_effects :: "graph_effect list"
  setup_calls :: nat

text \<open>\<^verbatim>\<open>db = SessionLocal()\<close>: a new open session; the handle is its index.\<close>

definition SessionLocal :: "world \<Rightarrow> nat \<times> world" where
  "SessionLocal w = (length (sessions w), w\<lparr>sessions := sessions w @ [Open]\<rparr>)"

text \<open>\<^verbatim>\<open>db.close()\<close>\<close>

definition close :: "nat \<Rightarrow> world \<Rightarrow> world" where
  "close db w = w\<lparr>sessions := (sessions w)[db := Closed]\<rparr>"

text \<open>
  \<^verbatim>\<open>try: body  except Exception as e: handler  finally: final\<close>. The body returns a value
  (\<open>Inr\<close>) or raises (\<open>Inl\<close>); the handler runs on a raise and its outcome replaces the
  body's; the final block runs in both cases.
\<close>

definition try_except_finally ::
  "(world \<Rightarrow> (error + 'a) \<times> world) \<Rightarrow> (error \<Rightarrow> world \<Rightarrow> (error + 'a) \<times> world) \<Rightarrow>
   (world \<Rightarrow> world) \<Rightarrow> world \<Rightarrow> (error + 'a) \<times> world" where
  "try_except_finally body handler final w =
     (case body w of
        (Inr v, w1) \<Rightarrow> (Inr v, final w1)
      | (Inl e, w1) \<Rightarrow> (case handler e w1 of (r, w2) \<Rightarrow> (r, final w2)))"

section \<open>Conversation history loader (assistant.py, lines 121-148)\<close>

text \<open>The filter of the query: messages between the two numbers, in both directions.\<close>

definition between :: "string \<Rightarrow> string \<Rightarrow> message \<Rightarrow> bool" where
  "between from_number to_number m =
     ((msg_from m = from_number \<and> msg_to m = to_number) \<or>
      (msg_from m = to_number \<and> msg_to m = from_number))"

text \<open>\<^verbatim>\<open>order_by(Message.id.desc())\<close>\<close>

definition order_by_id_desc :: "message list \<Rightarrow> message list" where
  "order_by_id_desc ms = rev (sort_key msg_id ms)"

text \<open>
  \<^verbatim>\<open>db.query(Message).filter(...).order_by(...).limit(limit).all()\<close>. Whether the backing
  store raises is given by \<open>raises\<close>; the limit is a row count.
\<close>

definition db_query ::
  "bool \<Rightarrow> string \<Rightarrow> string \<Rightarrow> nat \<Rightarrow> world \<Rightarrow> (error + message list) \<times> world" where
  "db_query raises from_number to_number limit w =
     (let w1 = w\<lparr>history_queries := history_queries w + 1\<rparr> in
      if raises then (Inl DBError, w1)
      else (Inr (take limit (order_by_id_desc
                   (filter (between from_number to_number) (messages_table w1)))), w1))"

text \<open>The loop \<^verbatim>\<open>for msg in messages\<close> that appends to \<^verbatim>\<open>formatted_messages\<close>.\<close>

fun format_loop :: "chat_message list \<Rightarrow> message list \<Rightarrow> chat_message list" where
  "format_loop formatted_messages [] = formatted_messages"
| "format_loop formatted_messages (msg # msgs) =
     format_loop
       (formatted_messages @
          [\<lparr>role = (if message_type msg = ''user'' then ''user'' else ''assistant''),
            chat_content = content msg\<rparr>])
       msgs"

text \<open>The body of the try block: query, reverse, convert, return.\<close>

definition history_body ::
  "bool \<Rightarrow> string \<Rightarrow> string \<Rightarrow> nat \<Rightarrow> world \<Rightarrow> (error + chat_message list) \<times> world" where
  "history_body raises from_number to_number limit w =
     (case db_query raises from_number to_number limit w of
        (Inl e, w1) \<Rightarrow> (Inl e, w1)
      | (Inr messages, w1) \<Rightarrow> (Inr (format_loop [] (rev messages)), w1))"

definition load_conversation_history ::
  "bool \<Rightarrow> string \<Rightarrow> string \<Rightarrow> nat \<Rightarrow> world \<Rightarrow> (error + chat_message list) \<times> world" where
  "load_conversation_history raises from_number to_number limit w =
     (case SessionLocal w of
        (db, w1) \<Rightarrow>
          try_except_finally
            (history_body raises from_number to_number limit)
            (\<lambda>e w'. (Inr [], w'))
            (close db) w1)"

section \<open>One turn (assistant.py, generate\_response)\<close>

text \<open>
  What the collaborators do during one turn: the date, whether the two commits on the
  message store raise, what the compiled graph streams for a given input and thread id,
  what that run does outside the program while it streams (checkpoint writes, tool
  executions), and whether Twilio raises. A stream either completes with its steps or
  raises after some steps. The same date is used wherever the code calls
  \<^verbatim>\<open>date.today()\<close>.
\<close>

datatype stream_outcome =
  Completed "step list"
  | Raised "step list" error

record turn_env =
  today :: string
  commit_prompt_raises :: bool
  graph_stream :: "chat_message list \<Rightarrow> string \<Rightarrow> stream_outcome"
  stream_effects :: "chat_message list \<Rightarrow> string \<Rightarrow> graph_effect list"
  twilio_raises :: bool
  commit_reply_raises :: bool

record assistant =
  assistant_instructions :: string

text \<open>The next value of the serial primary key: above every id of the table.\<close>

definition next_id :: "message list \<Rightarrow> int" where
  "next_id table = foldl max 0 (map msg_id table) + 1"

text \<open>\<^verbatim>\<open>db.add(msg_record); db.commit()\<close>: the row is in the table iff the commit does not raise.\<close>

definition add_commit ::
  "bool \<Rightarrow> string \<Rightarrow> string \<Rightarrow> string \<Rightarrow> string \<Rightarrow> string \<Rightarrow> world \<Rightarrow> (error + unit) \<times> world" where
  "add_commit raises from_v to_v content_v created_v type_v w =
     (if raises then (Inl DBError, w)
      else (Inr (),
            w\<lparr>messages_table := messages_table w @
                 [\<lparr>msg_id = next_id (messages_table w), msg_from = from_v, msg_to = to_v,
                   content = content_v, created_at = created_v, message_type = type_v\<rparr>]\<rparr>))"

text \<open>
  The block that stores one record (lines 180-194 and 246-260): open a session, add and
  commit in a try block, print on an exception, close the session in any case.
\<close>

definition store_record ::
  "bool \<Rightarrow> string \<Rightarrow> string \<Rightarrow> string \<Rightarrow> string \<Rightarrow> string \<Rightarrow> world \<Rightarrow> world" where
  "store_record raises from_v to_v content_v created_v type_v w =
     (case SessionLocal w of
        (db, w1) \<Rightarrow>
          snd (try_except_finally
                 (add_commit raises from_v to_v content_v created_v type_v)
                 (\<lambda>e w'. (Inr (), w'))
                 (close db) w1))"

text \<open>Lines 197-202: the message list handed to the graph.\<close>

definition turn_messages :: "assistant \<Rightarrow> turn_env \<Rightarrow> string \<Rightarrow> chat_message list" where
  "turn_messages self env prompt =
     [\<lparr>role = ''system'',
       chat_content = assistant_instructions self @
         ([CHR 0x0A, CHR 0x0A] @ ''Current date is '' @ today env @
          '' and default timezone is UTC -3 (ART).'')\<rparr>]
     @ [\<lparr>role = ''user'', chat_content = prompt\<rparr>]"

text \<open>
  Lines 196-262, from the world in which the prompt has been handled: build the input,
  run the graph with the sender's number as thread id (the run has its effects whether
  it completes or raises), aggregate the streamed steps, and, when the reply is not
  empty, send it and store it. An exception of the stream or of Twilio leaves the
  function.
\<close>

definition respond ::
  "assistant \<Rightarrow> turn_env \<Rightarrow> string \<Rightarrow> string \<Rightarrow> string \<Rightarrow> world \<Rightarrow> (error + string) \<times> world" where
  "respond self env prompt from_number to_number w =
     (let messages = turn_messages self env prompt;
          w1 = w\<lparr>graph_inputs := graph_inputs w @ [(messages, from_number)],
                 graph_effects := graph_effects w @ stream_effects env messages from_number\<rparr>
      in case graph_stream env messages from_number of
           Raised steps e \<Rightarrow> (Inl e, w1)
         | Completed steps \<Rightarrow>
             (let final_response = aggregate steps in
              if final_response \<noteq> [] then
                (if twilio_raises env then (Inl TwilioError, w1)
                 else
                   (let w2 = w1\<lparr>outbox := outbox w1 @
                               [\<lparr>sms_body = final_response, sms_from = to_number,
                                 sms_to = from_number\<rparr>]\<rparr>
                    in (Inr final_response,
                        store_record (commit_reply_raises env) to_number from_number
                          final_response (today env) ''ai'' w2)))
              else (Inr final_response, w1)))"

definition generate_response ::
  "assistant \<Rightarrow> turn_env \<Rightarrow> string \<Rightarrow> string \<Rightarrow> string \<Rightarrow> world \<Rightarrow> (error + string) \<times> world" where
  "generate_response self env prompt from_number to_number w =
     respond self env prompt from_number to_number
       (store_record (commit_prompt_raises env) from_number to_number prompt (today env)
          ''user'' w)"

section \<open>Startup and the webhook (assistant.py module level and \_\_init\_\_, main.py)\<close>

text \<open>
  \<^verbatim>\<open>not os.environ.get(k)\<close> and \<^verbatim>\<open>not form_data.get(k)\<close>: the key is missing or its value
  is the empty string.
\<close>

definition unset :: "string option \<Rightarrow> bool" where
  "unset v = (case v of None \<Rightarrow> True | Some s \<Rightarrow> s = [])"

text \<open>\<^verbatim>\<open>form_data.get(k) or ""\<close>; also the value of a key known to be set.\<close>

definition or_empty :: "string option \<Rightarrow> string" where
  "or_empty v = (case v of None \<Rightarrow> [] | Some s \<Rightarrow> s)"

text \<open>The module-level check of assistant.py (lines 23-24), run when main.py imports it.\<close>

definition module_check :: "(string \<rightharpoonup> string) \<Rightarrow> error + unit" where
  "module_check environ =
     (if unset (environ ''OPENAI_API_KEY'') \<or> unset (environ ''TWILIO_ACCOUNT_SID'')
         \<or> unset (environ ''TWILIO_AUTH_TOKEN'')
      then Inl EnvironmentError else Inr ())"

text \<open>The two connection candidates of \<^verbatim>\<open>__init__\<close>, tried in this order.\<close>

datatype candidate = connection_string | dsn_fallback

text \<open>
  What the collaborators do during one request: whether building the tools and the chat
  model raises, which candidate the checkpoint store accepts, whether its \<^verbatim>\<open>setup()\<close>
  raises, whether the Twilio client can be built, the contents of the prompt file (if it
  can be read), the audio download, the transcription service, and the turn.
\<close>

record request_env =
  agent_raises :: bool
  can_connect :: "candidate \<Rightarrow> bool"
  setup_raises :: bool
  client_raises :: bool
  prompt_file :: "string option"
  media_download :: "error + string"
  whisper :: "error + string"
  turn :: turn_env

text \<open>
  The loop \<^verbatim>\<open>for candidate in (connection_string, dsn_fallback)\<close>: the first candidate
  whose context can be entered becomes \<^verbatim>\<open>self.memory\<close>; an exception moves to the next.
\<close>

fun first_saver :: "(candidate \<Rightarrow> bool) \<Rightarrow> candidate list \<Rightarrow> candidate option" where
  "first_saver can [] = None"
| "first_saver can (c # cs) = (if can c then Some c else first_saver can cs)"

text \<open>
  \<^verbatim>\<open>Assistant.__init__\<close>: tools and model, the checkpoint store (RuntimeError when no
  candidate works), \<^verbatim>\<open>self.memory.setup()\<close>, the Twilio client, the prompt file.
\<close>

definition Assistant_init :: "request_env \<Rightarrow> world \<Rightarrow> (error + assistant) \<times> world" where
  "Assistant_init env w =
     (if agent_raises env then (Inl RuntimeError, w)
      else case first_saver (can_connect env) [connection_string, dsn_fallback] of
        None \<Rightarrow> (Inl RuntimeError, w)
      | Some memory \<Rightarrow>
          (let w1 = w\<lparr>setup_calls := setup_calls w + 1\<rparr> in
           if setup_raises env then (Inl DBError, w1)
           else if client_raises env then (Inl TwilioError, w1)
           else case prompt_file env of
                  None \<Rightarrow> (Inl FileError, w1)
                | Some instructions \<Rightarrow> (Inr \<lparr>assistant_instructions = instructions\<rparr>, w1)))"

text \<open>\<^verbatim>\<open>transcribe_audio\<close>: the transcription, or the empty string when the service raises.\<close>

definition transcribe_audio :: "request_env \<Rightarrow> string \<Rightarrow> string" where
  "transcribe_audio env audio_bytes =
     (case whisper env of Inl e \<Rightarrow> [] | Inr transcription \<Rightarrow> transcription)"

text \<open>
  \<^verbatim>\<open>str.strip()\<close>: the whitespace characters among the code points below 256 are
  0x09-0x0D, 0x1C-0x20, 0x85 and 0xA0.
\<close>

definition isspace :: "char \<Rightarrow> bool" where
  "isspace c = (c \<in> set [CHR '' '', CHR 0x09, CHR 0x0A, CHR 0x0B, CHR 0x0C, CHR 0x0D,
                          CHR 0x1C, CHR 0x1D, CHR 0x1E, CHR 0x1F, CHR 0x85, CHR 0xA0])"

definition strip :: "string \<Rightarrow> string" where
  "strip s = rev (dropWhile isspace (rev (dropWhile isspace s)))"

text \<open>Lines 36-62 of main.py: the prompt of the turn, from the audio or from the text.\<close>

definition resolve_body ::
  "(string \<rightharpoonup> string) \<Rightarrow> request_env \<Rightarrow> string option \<Rightarrow> string option \<Rightarrow> string option \<Rightarrow>
   error + string" where
  "resolve_body environ env media_content_type media_url text_body =
     (if \<not> unset media_content_type \<and> take 6 (or_empty media_content_type) = ''audio/''
      then
        (if unset media_url then Inl (HTTPException 400)
         else if unset (environ ''TWILIO_ACCOUNT_SID'') \<or> unset (environ ''TWILIO_AUTH_TOKEN'')
         then Inl (HTTPException 500)
         else case media_download env of
                Inl e \<Rightarrow> Inr ''(Error transcribing audio message)''
              | Inr audio_bytes \<Rightarrow>
                  (let transcript = transcribe_audio env audio_bytes in
                   if strip transcript \<noteq> [] then Inr (strip transcript)
                   else Inr ''(Unintelligible audio or empty transcription)''))
      else Inr (or_empty text_body))"

record request =
  form_From :: "string option"
  form_To :: "string option"
  form_MediaContentType0 :: "string option"
  form_MediaUrl0 :: "string option"
  form_Body :: "string option"

text \<open>
  \<^verbatim>\<open>receive_message\<close>: 400 without From or To; a new Assistant for this request, whose
  exceptions leave the handler; the prompt; the turn, whose exceptions become a 500.
\<close>

definition receive_message ::
  "(string \<rightharpoonup> string) \<Rightarrow> request_env \<Rightarrow> request \<Rightarrow> world \<Rightarrow> (error + string) \<times> world" where
  "receive_message environ env req w =
     (if unset (form_From req) \<or> unset (form_To req) then (Inl (HTTPException 400), w)
      else case Assistant_init env w of
        (Inl e, w1) \<Rightarrow> (Inl e, w1)
      | (Inr assistant, w1) \<Rightarrow>
          (case resolve_body environ env (form_MediaContentType0 req) (form_MediaUrl0 req)
                  (form_Body req) of
             Inl e \<Rightarrow> (Inl e, w1)
           | Inr body \<Rightarrow>
               (case generate_response assistant (turn env) body
                       (or_empty (form_From req)) (or_empty (form_To req)) w1 of
                  (Inl e, w2) \<Rightarrow> (Inl (HTTPException 500), w2)
                | (Inr message, w2) \<Rightarrow> (Inr ''Message sent'', w2))))"

text \<open>The process: the requests it receives, one after the other, each with its environment.\<close>

fun serve ::
  "(string \<rightharpoonup> string) \<Rightarrow> world \<Rightarrow> (request_env \<times> request) list \<Rightarrow>
   (error + string) list \<times> world" where
  "serve environ w [] = ([], w)"
| "serve environ w (ev # rest) =
     (case receive_message environ (fst ev) (snd ev) w of
        (r, w1) \<Rightarrow> (case serve environ w1 rest of (rs, w2) \<Rightarrow> (r # rs, w2)))"

text \<open>
  What happens when main.py is imported. Its line 8 imports assistant.py, whose line 6
  imports models.py before anything else of the repository runs. models.py reads the
  database settings from the environment (after \<^verbatim>\<open>load_dotenv\<close>), builds the URL with
  \<^verbatim>\<open>int(db_port) if db_port else None\<close>, and calls \<^verbatim>\<open>Base.metadata.create_all\<close> in a try
  block that catches UnicodeDecodeError only (re-raised as RuntimeError). The environment
  of the import says for which strings \<^verbatim>\<open>int\<close> raises ValueError and what \<^verbatim>\<open>create_all\<close>
  does: it returns, raises UnicodeDecodeError, or raises another exception (an unreachable
  database raises there). The imports of third-party libraries are taken to succeed.
\<close>

datatype create_all_outcome =
  CreateAllReturns
  | CreateAllUnicodeDecodeError
  | CreateAllRaises error

record import_env =
  int_raises :: "string \<Rightarrow> bool"
  create_all :: create_all_outcome

text \<open>The module level of models.py.\<close>

definition models_import :: "(string \<rightharpoonup> string) \<Rightarrow> import_env \<Rightarrow> error + unit" where
  "models_import environ ienv =
     (if \<not> unset (environ ''DB_PORT'') \<and> int_raises ienv (or_empty (environ ''DB_PORT''))
      then Inl ValueError
      else case create_all ienv of
             CreateAllReturns \<Rightarrow> Inr ()
           | CreateAllUnicodeDecodeError \<Rightarrow> Inl RuntimeError
           | CreateAllRaises e \<Rightarrow> Inl e)"

text \<open>The import of assistant.py: models.py first, then the credential check.\<close>

definition startup :: "(string \<rightharpoonup> string) \<Rightarrow> import_env \<Rightarrow> error + unit" where
  "startup environ ienv =
     (case models_import environ ienv of
        Inl e \<Rightarrow> Inl e
      | Inr u \<Rightarrow> module_check environ)"

text \<open>Startup, then the requests: nothing is served when the import raises.\<close>

definition run_process ::
  "(string \<rightharpoonup> string) \<Rightarrow> import_env \<Rightarrow> world \<Rightarrow> (request_env \<times> request) list \<Rightarrow>
   error + (error + string) list \<times> world" where
  "run_process environ ienv w events =
     (case startup environ ienv of
        Inl e \<Rightarrow> Inl e
      | Inr u \<Rightarrow> Inr (serve environ w events))"

text \<open>A request that gets as far as \<^verbatim>\<open>self.memory.setup()\<close>.\<close>

definition reaches_setup :: "request_env \<times> request \<Rightarrow> bool" where
  "reaches_setup ev =
     (\<not> (unset (form_From (snd ev)) \<or> unset (form_To (snd ev))) \<and> \<not> agent_raises (fst ev)
      \<and> (can_connect (fst ev) connection_string \<or> can_connect (fst ev) dsn_fallback))"

section \<open>Router and tool executor (assistant/tool\_calls.py)\<close>

text \<open>
  The messages of the conversation state as the specification lists them: a role, a
  content, an optional sequence of tool calls and an optional tool call id. The field
  \<open>tool_calls\<close> can be missing, malformed, or a sequence.
\<close>

datatype role_kind = System | User | Assistant | Tool

record tool_call =
  call_id :: string
  call_name :: string
  arguments :: "(string \<times> string) list"

datatype tool_calls_field = Missing | Malformed | Calls "tool_call list"

record state_message =
  message_role :: role_kind
  message_content :: string
  tool_calls :: tool_calls_field
  tool_call_id :: "string option"

datatype position = Chat | Tools | Terminal

text \<open>
  Modelled from the spec: the body of \<^verbatim>\<open>BasicToolNode.route_tools\<close> (module
  assistant/tool\_calls.py) is not among the sources; assistant.py only passes it to
  \<^verbatim>\<open>add_conditional_edges\<close>. Section 4.2: a function of the latest message; Tools when it
  is an assistant message whose tool calls are a non-empty sequence; a missing or
  malformed field counts as absent and routes to Terminal. The result type has a branch
  for a raised exception.
\<close>

definition route :: "state_message \<Rightarrow> error + position" where
  "route latest_message =
     (case tool_calls latest_message of
        Missing \<Rightarrow> Inr Terminal
      | Malformed \<Rightarrow> Inr Terminal
      | Calls cs \<Rightarrow>
          if message_role latest_message = Assistant \<and> cs \<noteq> [] then Inr Tools
          else Inr Terminal)"

text \<open>
  Modelled from the spec: the body of \<^verbatim>\<open>BasicToolNode.__call__\<close> (module
  assistant/tool\_calls.py) is not among the sources; assistant.py only builds the node
  from the tool list. Section 4.3: a tool maps its arguments to a payload or raises with
  a description; the registry maps names to tools; for each call, in order, an unknown
  name gives the error content "unknown tool", an exception of the tool gives its
  description as content, and the result is appended as a tool message with the id of
  the call.
\<close>

type_synonym tool = "(string \<times> string) list \<Rightarrow> string + string"

definition tool_result :: "(string \<rightharpoonup> tool) \<Rightarrow> tool_call \<Rightarrow> state_message" where
  "tool_result registry c =
     \<lparr>message_role = Tool,
      message_content =
        (case registry (call_name c) of
           None \<Rightarrow> ''unknown tool''
         | Some t \<Rightarrow> (case t (arguments c) of Inl description \<Rightarrow> description
                      | Inr payload \<Rightarrow> payload)),
      tool_calls = Missing,
      tool_call_id = Some (call_id c)\<rparr>"

fun tool_executor ::
  "(string \<rightharpoonup> tool) \<Rightarrow> state_message list \<Rightarrow> tool_call list \<Rightarrow> state_message list" where
  "tool_executor registry log [] = log"
| "tool_executor registry log (c # cs) =
     tool_executor registry (log @ [tool_result registry c]) cs"

text \<open>The Tools step on an assistant message: the executor on the message's calls.\<close>

definition tools_step ::
  "(string \<rightharpoonup> tool) \<Rightarrow> state_message list \<Rightarrow> state_message \<Rightarrow> state_message list" where
  "tools_step registry log m =
     (case tool_calls m of
        Calls cs \<Rightarrow> tool_executor registry (log @ [m]) cs
      | Missing \<Rightarrow> log @ [m]
      | Malformed \<Rightarrow> log @ [m])"

section \<open>Concrete inputs\<close>

text \<open>Worlds, environments and requests on which the theorems below are evaluated.\<close>

definition empty_world :: world where
  "empty_world = \<lparr>messages_table = [], sessions = [], history_queries = 0, outbox = [],
                   graph_inputs = [], graph_effects = [], setup_calls = 0\<rparr>"

definition history_world :: world where
  "history_world = empty_world\<lparr>messages_table :=
     [\<lparr>msg_id = 1, msg_from = ''+5551112222'', msg_to = ''+5553334444'', content = ''one'',
       created_at = ''2025-01-01'', message_type = ''user''\<rparr>,
      \<lparr>msg_id = 2, msg_from = ''+5553334444'', msg_to = ''+5551112222'', content = ''two'',
       created_at = ''2025-01-01'', message_type = ''ai''\<rparr>,
      \<lparr>msg_id = 3, msg_from = ''+5551112222'', msg_to = ''+5559990000'', content = ''other'',
       created_at = ''2025-01-02'', message_type = ''user''\<rparr>,
      \<lparr>msg_id = 4, msg_from = ''+5551112222'', msg_to = ''+5553334444'', content = ''three'',
       created_at = ''2025-01-02'', message_type = ''user''\<rparr>]\<rparr>"

definition helper :: assistant where
  "helper = \<lparr>assistant_instructions = ''Be helpful.''\<rparr>"


definition greeting_stream :: "chat_message list \<Rightarrow> string \<Rightarrow> stream_outcome" where
  "greeting_stream messages thread_id = Completed [Tuple (Chunk (Str ''Hi!'')) []]"

definition json_stream :: "chat_message list \<Rightarrow> string \<Rightarrow> stream_outcome" where
  "json_stream messages thread_id = Completed [Tuple (Chunk (Str ''{}'')) []]"

definition checkpoint_only ::
  "chat_message list \<Rightarrow> string \<Rightarrow> graph_effect list" where
  "checkpoint_only messages thread_id = [CheckpointSaved thread_id]"

definition calendar_effects ::
  "chat_message list \<Rightarrow> string \<Rightarrow> graph_effect list" where
  "calendar_effects messages thread_id =
     [CheckpointSaved thread_id, ToolExecuted ''create_calendar_event'',
      CheckpointSaved thread_id]"

definition greeting_turn :: turn_env where
  "greeting_turn = \<lparr>today = ''2025-01-02'', commit_prompt_raises = False,
     graph_stream = greeting_stream, stream_effects = checkpoint_only,
     twilio_raises = False, commit_reply_raises = False\<rparr>"



definition json_turn :: turn_env where
  "json_turn = greeting_turn\<lparr>graph_stream := json_stream\<rparr>"

definition calendar_turn :: turn_env where
  "calendar_turn = greeting_turn\<lparr>graph_stream := json_stream,
     stream_effects := calendar_effects\<rparr>"

definition always :: "candidate \<Rightarrow> bool" where
  "always c = True"

definition never :: "candidate \<Rightarrow> bool" where
  "never c = False"

definition good_env :: request_env where
  "good_env = \<lparr>agent_raises = False, can_connect = always, setup_raises = False,
     client_raises = False, prompt_file = Some ''Be helpful.'', media_download = Inl FileError,
     whisper = Inl FileError, turn = greeting_turn\<rparr>"

definition down_env :: request_env where
  "down_env = good_env\<lparr>can_connect := never\<rparr>"

definition hello_request :: request where
  "hello_request = \<lparr>form_From = Some ''+5551112222'', form_To = Some ''+5553334444'',
     form_MediaContentType0 = None, form_MediaUrl0 = None, form_Body = Some ''hello''\<rparr>"

definition int_accepts_all :: "string \<Rightarrow> bool" where
  "int_accepts_all s = False"

definition clean_import :: import_env where
  "clean_import = \<lparr>int_raises = int_accepts_all, create_all = CreateAllReturns\<rparr>"

definition database_down_import :: import_env where
  "database_down_import = clean_import\<lparr>create_all := CreateAllRaises OperationalError\<rparr>"

definition full_environ :: "string \<rightharpoonup> string" where
  "full_environ = [''OPENAI_API_KEY'' \<mapsto> ''sk'', ''TWILIO_ACCOUNT_SID'' \<mapsto> ''AC'',
                   ''TWILIO_AUTH_TOKEN'' \<mapsto> ''tk'']"

definition listing_tool :: tool where
  "listing_tool args = Inr ''2 events''"

definition calendar_registry :: "string \<rightharpoonup> tool" where
  "calendar_registry = [''get_calendar_events'' \<mapsto> listing_tool]"

definition c1 :: tool_call where
  "c1 = \<lparr>call_id = ''call_1'', call_name = ''get_calendar_events'', arguments = []\<rparr>"

definition c2 :: tool_call where
  "c2 = \<lparr>call_id = ''call_2'', call_name = ''create_reminder'', arguments = []\<rparr>"

definition c3 :: tool_call where
  "c3 = \<lparr>call_id = ''call_3'', call_name = ''get_calendar_events'', arguments = []\<rparr>"

definition calling_message :: state_message where
  "calling_message = \<lparr>message_role = Assistant, message_content = [],
     tool_calls = Calls [c1, c2, c3], tool_call_id = None\<rparr>"

definition malformed_message :: state_message where
  "malformed_message = calling_message\<lparr>tool_calls := Malformed\<rparr>"

section \<open>Properties of the aggregation\<close>

lemma add_item_text: "add_item acc i = acc @ item_text i"
  by (cases i) simp_all

lemma foldl_add_item: "foldl add_item acc items = acc @ concat (map item_text items)"
  by (induction items arbitrary: acc) (simp_all add: add_item_text)

lemma extract_event_text: "extract_text c = event_text (Tuple (Chunk c) md)"
  by (cases c) (simp_all add: foldl_add_item)

lemma process_step_text:
  "process_step acc e =
     (if startswith_brace (event_text e) then acc else acc @ event_text e)"
proof (cases e)
  case NotPair
  then show ?thesis by simp
next
  case (Tuple ch md)
  show ?thesis
  proof (cases ch)
    case NoContentAttr
    with Tuple show ?thesis by simp
  next
    case (Chunk c)
    have "extract_text c = event_text e"
      using Tuple Chunk extract_event_text [of c md] by simp
    moreover have "\<not> truthy c \<Longrightarrow> event_text e = []"
      using Tuple Chunk by (cases c) simp_all
    ultimately show ?thesis
      using Tuple Chunk by (auto simp: Let_def)
  qed
qed

lemma foldl_process_step:
  "foldl process_step acc events =
     acc @ concat (map event_text (filter (\<lambda>e. \<not> startswith_brace (event_text e)) events))"
  by (induction events arbitrary: acc) (simp_all add: process_step_text)

text \<open>
  C2. The reply buffer is the concatenation, in event order, of the fully extracted texts
  of the events whose text does not begin with the character \<open>{\<close>; an event whose text
  begins with it contributes nothing. For the events \<open>["Hello, "]\<close>, \<open>["world"]\<close>,
  \<open>["{\"tool\":...}"]\<close> the reply is \<open>Hello, world\<close>.
\<close>

theorem aggregate_concat_excluding_brace:
  \<open>aggregate events = spec_reply events
   \<and> aggregate (events @ [e]) =
       (if startswith_brace (event_text e) then aggregate events
        else aggregate events @ event_text e)
   \<and> aggregate [Tuple (Chunk (Blocks [StrItem ''Hello, ''])) md1,
                 Tuple (Chunk (Blocks [StrItem ''world''])) md2,
                 Tuple (Chunk (Blocks [StrItem ''{"tool":...}''])) md3] = ''Hello, world''\<close>
proof -
  have a: "aggregate events = spec_reply events"
    by (simp add: aggregate_def spec_reply_def foldl_process_step)
  have b: "aggregate (events @ [e]) =
       (if startswith_brace (event_text e) then aggregate events
        else aggregate events @ event_text e)"
    by (simp add: aggregate_def process_step_text)
  have c: \<open>aggregate [Tuple (Chunk (Blocks [StrItem ''Hello, ''])) md1,
                 Tuple (Chunk (Blocks [StrItem ''world''])) md2,
                 Tuple (Chunk (Blocks [StrItem ''{"tool":...}''])) md3] = ''Hello, world''\<close>
    by (simp add: aggregate_def)
  from a b c show ?thesis by blast
qed

section \<open>Properties of the history loader\<close>

lemma format_loop_map:
  "format_loop acc ms =
     acc @ map (\<lambda>msg. \<lparr>role = (if message_type msg = ''user'' then ''user'' else ''assistant''),
                        chat_content = content msg\<rparr>) ms"
  by (induction ms arbitrary: acc) simp_all

lemma rev_take_rev: "rev (take n (rev xs)) = drop (length xs - n) xs"
  by (simp add: take_rev)

lemma load_ok:
  "fst (load_conversation_history False f t n w) =
     Inr (map (\<lambda>msg. \<lparr>role = (if message_type msg = ''user'' then ''user'' else ''assistant''),
                        chat_content = content msg\<rparr>)
           (drop (length (filter (between f t) (messages_table w)) - n)
              (sort_key msg_id (filter (between f t) (messages_table w)))))"
  by (simp add: load_conversation_history_def SessionLocal_def try_except_finally_def
      history_body_def db_query_def Let_def order_by_id_desc_def format_loop_map rev_take_rev)

lemma sorted_split:
  "sorted (map f (xs @ ys)) \<Longrightarrow> x \<in> set xs \<Longrightarrow> y \<in> set ys \<Longrightarrow> f x \<le> f y"
  by (auto simp: sorted_append)

text \<open>
  C5. When the query does not raise, the loader returns at most \<open>n\<close> records: the stored
  rows between the two numbers (either direction) split into \<open>older\<close> and \<open>selected\<close>,
  where \<open>selected\<close> has \<open>min n\<close> (number of such rows) elements, is in ascending order of
  id, and no row of \<open>older\<close> has a greater id than a row of \<open>selected\<close>; the result lists
  \<open>selected\<close> in that order, each with its content and with role \<open>user\<close> when its message
  type is \<open>user\<close> and \<open>assistant\<close> otherwise.
\<close>

theorem load_history_recent:
  assumes "\<not> raises"
  shows "\<exists>older selected.
     mset (older @ selected) = mset (filter (between f t) (messages_table w))
     \<and> length selected = min n (length (filter (between f t) (messages_table w)))
     \<and> sorted (map msg_id selected)
     \<and> (\<forall>x \<in> set older. \<forall>y \<in> set selected. msg_id x \<le> msg_id y)
     \<and> (\<exists>result. fst (load_conversation_history raises f t n w) = Inr result
          \<and> length result \<le> n
          \<and> map chat_content result = map content selected
          \<and> map role result =
              map (\<lambda>m. if message_type m = ''user'' then ''user'' else ''assistant'') selected)"
proof -
  define matches where "matches = filter (between f t) (messages_table w)"
  define ms where "ms = sort_key msg_id matches"
  define older where "older = take (length matches - n) ms"
  define selected where "selected = drop (length matches - n) ms"
  have split: "older @ selected = ms"
    by (simp add: older_def selected_def)
  have m: "mset (older @ selected) = mset matches"
    unfolding split by (simp add: ms_def)
  have len: "length selected = min n (length matches)"
    by (simp add: selected_def ms_def)
  have srt: "sorted (map msg_id ms)"
    by (simp add: ms_def)
  then have s1: "sorted (map msg_id selected)"
    by (simp add: selected_def sorted_wrt_drop drop_map [symmetric] del: drop_map)
  have s2: "\<forall>x \<in> set older. \<forall>y \<in> set selected. msg_id x \<le> msg_id y"
    using srt sorted_split [of msg_id older selected] unfolding split by blast
  have r: "fst (load_conversation_history raises f t n w) =
     Inr (map (\<lambda>msg. \<lparr>role = (if message_type msg = ''user'' then ''user'' else ''assistant''),
                        chat_content = content msg\<rparr>) selected)"
    using assms load_ok [of f t n w] by (simp add: selected_def ms_def matches_def)
  show ?thesis
    apply (rule exI [of _ older], rule exI [of _ selected])
    using m len s1 s2 r by (simp add: matches_def o_def)
qed

theorem load_history_recent_witness:
  "\<not> False
   \<and> (\<exists>older selected.
     mset (older @ selected) =
       mset (filter (between ''+5551112222'' ''+5553334444'') (messages_table history_world))
     \<and> length selected =
         min 2 (length (filter (between ''+5551112222'' ''+5553334444'')
                  (messages_table history_world)))
     \<and> sorted (map msg_id selected)
     \<and> (\<forall>x \<in> set older. \<forall>y \<in> set selected. msg_id x \<le> msg_id y)
     \<and> (\<exists>result.
          fst (load_conversation_history False ''+5551112222'' ''+5553334444'' 2 history_world)
            = Inr result
          \<and> length result \<le> 2
          \<and> map chat_content result = map content selected
          \<and> map role result =
              map (\<lambda>m. if message_type m = ''user'' then ''user'' else ''assistant'') selected))
   \<and> fst (load_conversation_history False ''+5551112222'' ''+5553334444'' 2 history_world) =
       Inr [\<lparr>role = ''assistant'', chat_content = ''two''\<rparr>,
            \<lparr>role = ''user'', chat_content = ''three''\<rparr>]"
proof -
  have h: "\<not> False" by simp
  have ev: "fst (load_conversation_history False ''+5551112222'' ''+5553334444'' 2
      history_world) =
       Inr [\<lparr>role = ''assistant'', chat_content = ''two''\<rparr>,
            \<lparr>role = ''user'', chat_content = ''three''\<rparr>]"
    by (simp add: load_ok history_world_def empty_world_def between_def)
  from h load_history_recent [OF h, of "''+5551112222''" "''+5553334444''" history_world 2] ev
  show ?thesis by blast
qed

text \<open>
  C8. When the query raises, the loader returns the empty list; it returns a list and
  never an exception; and the session it opened is closed afterwards in every case.
\<close>

theorem load_history_swallows_errors:
  "(raises \<longrightarrow> fst (load_conversation_history raises f t n w) = Inr [])
   \<and> (\<exists>r. fst (load_conversation_history raises f t n w) = Inr r)
   \<and> sessions (snd (load_conversation_history raises f t n w)) = sessions w @ [Closed]"
  by (simp add: load_conversation_history_def SessionLocal_def try_except_finally_def
      history_body_def db_query_def Let_def close_def)

theorem load_history_swallows_errors_witness:
  "fst (load_conversation_history True ''+5551112222'' ''+5553334444'' 2 history_world) = Inr []
   \<and> sessions (snd (load_conversation_history True ''+5551112222'' ''+5553334444'' 2
        history_world)) = [Closed]"
  using load_history_swallows_errors [of True "''+5551112222''" "''+5553334444''" 2 history_world]
  by (simp add: history_world_def empty_world_def)

section \<open>Properties of a turn\<close>

lemma store_record_table:
  "messages_table (store_record raises f t c d ty w) =
     (if raises then messages_table w
      else messages_table w @
        [\<lparr>msg_id = next_id (messages_table w), msg_from = f, msg_to = t, content = c,
          created_at = d, message_type = ty\<rparr>])"
  by (simp add: store_record_def SessionLocal_def try_except_finally_def add_commit_def close_def)

lemma store_record_sessions:
  "sessions (store_record raises f t c d ty w) = sessions w @ [Closed]"
  by (simp add: store_record_def SessionLocal_def try_except_finally_def add_commit_def close_def)

lemma store_record_frame:
  "outbox (store_record raises f t c d ty w) = outbox w"
  "graph_inputs (store_record raises f t c d ty w) = graph_inputs w"
  "history_queries (store_record raises f t c d ty w) = history_queries w"
  "setup_calls (store_record raises f t c d ty w) = setup_calls w"
  "graph_effects (store_record raises f t c d ty w) = graph_effects w"
  by (simp_all add: store_record_def SessionLocal_def try_except_finally_def add_commit_def
      close_def)



lemma respond_empty:
  "graph_stream env (turn_messages self env p) f = Completed steps \<Longrightarrow> aggregate steps = [] \<Longrightarrow>
     respond self env p f t w =
       (Inr [], w\<lparr>graph_inputs := graph_inputs w @ [(turn_messages self env p, f)],
                   graph_effects := graph_effects w @
                     stream_effects env (turn_messages self env p) f\<rparr>)"
  by (simp add: respond_def Let_def)

lemma respond_graph_inputs:
  "graph_inputs (snd (respond self env p f t w)) =
     graph_inputs w @ [(turn_messages self env p, f)]"
  by (simp add: respond_def Let_def store_record_frame split: stream_outcome.split)

lemma respond_history_queries:
  "history_queries (snd (respond self env p f t w)) = history_queries w"
  by (simp add: respond_def Let_def store_record_frame split: stream_outcome.split)

lemma respond_setup_calls:
  "setup_calls (snd (respond self env p f t w)) = setup_calls w"
  by (simp add: respond_def Let_def store_record_frame split: stream_outcome.split)

lemma generate_response_setup_calls:
  "setup_calls (snd (generate_response self env p f t w)) = setup_calls w"
  by (simp add: generate_response_def respond_setup_calls store_record_frame)




text \<open>
  C9, as the code has it: when the stream completes and the aggregated reply is empty,
  the turn returns the empty string, hands nothing to Twilio, and leaves the message
  store as it was after the inbound record was handled (that record added, or nothing
  when its commit raised); no checkpoint setup is run and the session opened for the
  inbound record is closed. The run of the graph has happened all the same: it was
  started once with the turn's input, and whatever it did while streaming (checkpoint
  writes, tool executions) has been done.
\<close>

theorem empty_reply_frame:
  assumes "graph_stream env (turn_messages self env prompt) f = Completed steps"
    and "aggregate steps = []"
  shows "fst (generate_response self env prompt f t w) = Inr []
     \<and> outbox (snd (generate_response self env prompt f t w)) = outbox w
     \<and> messages_table (snd (generate_response self env prompt f t w)) =
         (if commit_prompt_raises env then messages_table w
          else messages_table w @
            [\<lparr>msg_id = next_id (messages_table w), msg_from = f, msg_to = t, content = prompt,
              created_at = today env, message_type = ''user''\<rparr>])
     \<and> setup_calls (snd (generate_response self env prompt f t w)) = setup_calls w
     \<and> sessions (snd (generate_response self env prompt f t w)) = sessions w @ [Closed]
     \<and> history_queries (snd (generate_response self env prompt f t w)) = history_queries w
     \<and> graph_inputs (snd (generate_response self env prompt f t w)) =
         graph_inputs w @ [(turn_messages self env prompt, f)]
     \<and> graph_effects (snd (generate_response self env prompt f t w)) =
         graph_effects w @ stream_effects env (turn_messages self env prompt) f"
  using respond_empty [OF assms]
  by (simp add: generate_response_def store_record_table store_record_frame store_record_sessions)

theorem empty_reply_frame_witness:
  "graph_stream json_turn (turn_messages helper json_turn ''hi'') ''+5551112222'' =
     Completed [Tuple (Chunk (Str ''{}'')) []]
   \<and> aggregate [Tuple (Chunk (Str ''{}'')) []] = []
   \<and> fst (generate_response helper json_turn ''hi'' ''+5551112222'' ''+5553334444''
        empty_world) = Inr []
   \<and> outbox (snd (generate_response helper json_turn ''hi'' ''+5551112222'' ''+5553334444''
        empty_world)) = []
   \<and> messages_table (snd (generate_response helper json_turn ''hi'' ''+5551112222''
        ''+5553334444'' empty_world)) =
       [\<lparr>msg_id = 1, msg_from = ''+5551112222'', msg_to = ''+5553334444'', content = ''hi'',
         created_at = ''2025-01-02'', message_type = ''user''\<rparr>]
   \<and> graph_effects (snd (generate_response helper json_turn ''hi'' ''+5551112222''
        ''+5553334444'' empty_world)) = [CheckpointSaved ''+5551112222'']"
proof -
  have s: "graph_stream json_turn (turn_messages helper json_turn ''hi'') ''+5551112222'' =
     Completed [Tuple (Chunk (Str ''{}'')) []]"
    by (simp add: json_turn_def greeting_turn_def json_stream_def)
  have a: "aggregate [Tuple (Chunk (Str ''{}'')) []] = []"
    by (simp add: aggregate_def)
  have v: "next_id (messages_table empty_world) = 1" "today json_turn = ''2025-01-02''"
    "outbox empty_world = []" "messages_table empty_world = []"
    "graph_effects empty_world = []" "\<not> commit_prompt_raises json_turn"
    "stream_effects json_turn (turn_messages helper json_turn ''hi'') ''+5551112222'' =
       [CheckpointSaved ''+5551112222'']"
    by (simp_all add: empty_world_def next_id_def json_turn_def greeting_turn_def
        checkpoint_only_def)
  note T = empty_reply_frame [OF s a, of "''+5553334444''" empty_world]
  from s a T show ?thesis
    by (simp only: v) (simp add: next_id_def)
qed

text \<open>
  The claim of C9 as stated fails: a turn whose stream completes with nothing but a
  chunk of JSON text has the empty reply and returns the empty string, yet the run of
  the graph has written checkpoints and executed the tool that creates a calendar event.
\<close>

theorem empty_reply_side_effects_counterexample:
  "fst (generate_response helper calendar_turn ''book it'' ''+5551112222'' ''+5553334444''
      empty_world) = Inr []
   \<and> outbox (snd (generate_response helper calendar_turn ''book it'' ''+5551112222''
        ''+5553334444'' empty_world)) = []
   \<and> graph_effects empty_world = []
   \<and> graph_effects (snd (generate_response helper calendar_turn ''book it'' ''+5551112222''
        ''+5553334444'' empty_world)) =
       [CheckpointSaved ''+5551112222'', ToolExecuted ''create_calendar_event'',
        CheckpointSaved ''+5551112222'']"
  by (simp add: generate_response_def respond_def Let_def store_record_frame
      calendar_turn_def greeting_turn_def json_stream_def calendar_effects_def
      aggregate_def empty_world_def)

text \<open>
  C10. The graph is started once per turn, with exactly two messages: the system message
  (the instructions, a blank line, and the line with the current date and timezone) and
  the user message with the inbound prompt, under the sender's number as thread id; and
  the turn runs no query of the history loader on the message store.
\<close>

theorem turn_input_two_messages:
  "graph_inputs (snd (generate_response self env prompt f t w)) =
     graph_inputs w @
       [([\<lparr>role = ''system'',
           chat_content = assistant_instructions self @ [CHR 0x0A, CHR 0x0A] @
             ''Current date is '' @ today env @ '' and default timezone is UTC -3 (ART).''\<rparr>,
          \<lparr>role = ''user'', chat_content = prompt\<rparr>], f)]
   \<and> length (turn_messages self env prompt) = 2
   \<and> history_queries (snd (generate_response self env prompt f t w)) = history_queries w"
  by (simp add: generate_response_def respond_graph_inputs respond_history_queries
      store_record_frame turn_messages_def)

section \<open>Properties of the router and the tool executor\<close>

lemma tool_executor_append:
  "tool_executor registry log calls = log @ map (tool_result registry) calls"
  by (induction calls arbitrary: log) simp_all

text \<open>
  C1. The router returns Tools exactly when the message is an assistant message whose
  tool calls are a non-empty sequence, and Terminal otherwise; a missing or malformed
  field routes to Terminal; it never raises; and its result depends only on the role and
  the tool calls of the message it is given.
\<close>

theorem route_tools_iff:
  "(route m = Inr Tools \<longleftrightarrow>
      message_role m = Assistant \<and> (\<exists>cs. tool_calls m = Calls cs \<and> cs \<noteq> []))
   \<and> (route m \<noteq> Inr Tools \<longrightarrow> route m = Inr Terminal)
   \<and> (tool_calls m = Missing \<or> tool_calls m = Malformed \<longrightarrow> route m = Inr Terminal)
   \<and> (\<forall>e. route m \<noteq> Inl e)
   \<and> (message_role m' = message_role m \<and> tool_calls m' = tool_calls m \<longrightarrow> route m' = route m)"
  by (auto simp: route_def split: tool_calls_field.splits)

theorem route_tools_iff_witness:
  "route calling_message = Inr Tools
   \<and> tool_calls malformed_message = Malformed
   \<and> route malformed_message \<noteq> Inr Tools
   \<and> route malformed_message = Inr Terminal
   \<and> route (malformed_message\<lparr>message_content := ''x''\<rparr>) = route malformed_message"
proof -
  note A = route_tools_iff [of calling_message calling_message]
  note B = route_tools_iff [of malformed_message
      "malformed_message\<lparr>message_content := ''x''\<rparr>"]
  have r: "message_role calling_message = Assistant"
    "tool_calls calling_message = Calls [c1, c2, c3]"
    by (simp_all add: calling_message_def)
  have m: "tool_calls malformed_message = Malformed"
    by (simp add: malformed_message_def)
  from A r have t1: "route calling_message = Inr Tools"
    by blast
  from B m have t2: "route malformed_message = Inr Terminal"
    by blast
  then have t3: "route malformed_message \<noteq> Inr Tools"
    by simp
  have same: "message_role (malformed_message\<lparr>message_content := ''x''\<rparr>) =
      message_role malformed_message
    \<and> tool_calls (malformed_message\<lparr>message_content := ''x''\<rparr>) =
      tool_calls malformed_message"
    by simp
  from B same have t4:
    "route (malformed_message\<lparr>message_content := ''x''\<rparr>) = route malformed_message"
    by blast
  from t1 m t3 t2 t4 show ?thesis
    by blast
qed

text \<open>
  C3. For \<open>n\<close> tool calls the executor appends exactly \<open>n\<close> messages to the log, leaving the
  log before them as it was; the \<open>k\<close>-th appended message is a tool message whose
  \<open>tool_call_id\<close> is the id of the \<open>k\<close>-th call; and the Tools step on an assistant message
  runs the executor on that message's calls.
\<close>

theorem tool_executor_order:
  "length (tool_executor registry log calls) = length log + length calls
   \<and> take (length log) (tool_executor registry log calls) = log
   \<and> (\<forall>k < length calls.
        message_role (tool_executor registry log calls ! (length log + k)) = Tool
        \<and> tool_call_id (tool_executor registry log calls ! (length log + k)) =
            Some (call_id (calls ! k)))
   \<and> tools_step registry log' (m\<lparr>tool_calls := Calls calls\<rparr>) =
        tool_executor registry (log' @ [m\<lparr>tool_calls := Calls calls\<rparr>]) calls"
  by (simp add: tool_executor_append nth_append tool_result_def tools_step_def)

theorem tool_executor_order_witness:
  "length (tool_executor calendar_registry [calling_message] [c1, c2, c3]) = 4
   \<and> map tool_call_id (drop 1 (tool_executor calendar_registry [calling_message] [c1, c2, c3]))
       = [Some ''call_1'', Some ''call_2'', Some ''call_3'']
   \<and> map message_content
        (drop 1 (tool_executor calendar_registry [calling_message] [c1, c2, c3]))
       = [''2 events'', ''unknown tool'', ''2 events'']
   \<and> tools_step calendar_registry [] calling_message =
       tool_executor calendar_registry [calling_message] [c1, c2, c3]"
  using tool_executor_order [of calendar_registry "[calling_message]" "[c1, c2, c3]"
      "[]" calling_message]
  by (simp add: calling_message_def c1_def c2_def c3_def calendar_registry_def
      listing_tool_def tool_result_def)

section \<open>Properties of startup and the webhook\<close>

lemma first_saver_two:
  "first_saver can [connection_string, dsn_fallback] = None \<longleftrightarrow>
     \<not> (can connection_string \<or> can dsn_fallback)"
  by simp

lemma Assistant_init_setup_calls:
  "setup_calls (snd (Assistant_init env w)) =
     setup_calls w +
       (if \<not> agent_raises env \<and> (can_connect env connection_string \<or> can_connect env dsn_fallback)
        then 1 else 0)"
  by (simp add: Assistant_init_def Let_def split: option.split)

lemma Assistant_init_frame:
  "graph_inputs (snd (Assistant_init env w)) = graph_inputs w"
  "graph_effects (snd (Assistant_init env w)) = graph_effects w"
  "outbox (snd (Assistant_init env w)) = outbox w"
  "messages_table (snd (Assistant_init env w)) = messages_table w"
  by (simp_all add: Assistant_init_def Let_def split: option.split)

lemma receive_message_setup_calls:
  "setup_calls (snd (receive_message environ env req w)) =
     setup_calls w + (if reaches_setup (env, req) then 1 else 0)"
proof (cases "unset (form_From req) \<or> unset (form_To req)")
  case True
  then show ?thesis
    by (simp add: receive_message_def reaches_setup_def)
next
  case False
  obtain r w1 where i: "Assistant_init env w = (r, w1)"
    by (cases "Assistant_init env w")
  have s: "setup_calls w1 = setup_calls w +
       (if \<not> agent_raises env \<and> (can_connect env connection_string \<or> can_connect env dsn_fallback)
        then 1 else 0)"
    using Assistant_init_setup_calls [of env w] i by simp
  have "setup_calls (snd (receive_message environ env req w)) = setup_calls w1"
    using False i
    by (simp add: receive_message_def generate_response_setup_calls
        split: sum.split prod.split)
       (metis generate_response_setup_calls snd_conv)
  with s False show ?thesis
    by (simp add: reaches_setup_def)
qed

lemma serve_setup_calls:
  "setup_calls (snd (serve environ w evs)) = setup_calls w + length (filter reaches_setup evs)"
proof (induction evs arbitrary: w)
  case Nil
  then show ?case by simp
next
  case (Cons ev rest)
  obtain r w1 where a: "receive_message environ (fst ev) (snd ev) w = (r, w1)"
    by (cases "receive_message environ (fst ev) (snd ev) w")
  obtain rs w2 where b: "serve environ w1 rest = (rs, w2)"
    by (cases "serve environ w1 rest")
  have "setup_calls w1 = setup_calls w + (if reaches_setup ev then 1 else 0)"
    using receive_message_setup_calls [of environ "fst ev" "snd ev" w] a by simp
  moreover have "setup_calls w2 = setup_calls w1 + length (filter reaches_setup rest)"
    using Cons.IH [of w1] b by simp
  ultimately show ?case
    using a b by simp
qed

lemma receive_message_init_fails:
  assumes "fst (Assistant_init env w) = Inl e"
    and "\<not> (unset (form_From req) \<or> unset (form_To req))"
  shows "fst (receive_message environ env req w) = Inl e
     \<and> graph_inputs (snd (receive_message environ env req w)) = graph_inputs w
     \<and> graph_effects (snd (receive_message environ env req w)) = graph_effects w
     \<and> outbox (snd (receive_message environ env req w)) = outbox w
     \<and> messages_table (snd (receive_message environ env req w)) = messages_table w"
proof -
  obtain w1 where i: "Assistant_init env w = (Inl e, w1)"
    using assms(1) by (cases "Assistant_init env w") simp
  have "w1 = snd (Assistant_init env w)"
    using i by simp
  then have "graph_inputs w1 = graph_inputs w" "outbox w1 = outbox w"
    "messages_table w1 = messages_table w" "graph_effects w1 = graph_effects w"
    by (simp_all add: Assistant_init_frame)
  then show ?thesis
    using assms(2) i by (simp add: receive_message_def)
qed

lemma generate_response_graph_inputs_grow:
  "graph_inputs (snd (generate_response self env p f t w)) \<noteq> graph_inputs w"
  by (simp add: generate_response_def respond_graph_inputs store_record_frame)

lemma receive_message_turn_after_setup:
  assumes "graph_inputs (snd (receive_message environ env req w)) \<noteq> graph_inputs w"
  shows "setup_calls (snd (receive_message environ env req w)) = setup_calls w + 1"
proof -
  have a: "\<not> (unset (form_From req) \<or> unset (form_To req))"
    using assms by (auto simp: receive_message_def)
  have "\<exists>a. fst (Assistant_init env w) = Inr a"
  proof (cases "fst (Assistant_init env w)")
    case (Inl e)
    then show ?thesis
      using receive_message_init_fails [OF Inl a, of environ] assms by simp
  next
    case (Inr a)
    then show ?thesis by simp
  qed
  then have "\<not> agent_raises env \<and>
      (can_connect env connection_string \<or> can_connect env dsn_fallback)"
    by (auto simp: Assistant_init_def split: if_splits)
  with a show ?thesis
    by (simp add: receive_message_setup_calls reaches_setup_def)
qed

lemma run_process_startup:
  "run_process environ ienv w evs =
     (if \<not> unset (environ ''DB_PORT'') \<and> int_raises ienv (or_empty (environ ''DB_PORT''))
      then Inl ValueError
      else case create_all ienv of
             CreateAllReturns \<Rightarrow>
               if unset (environ ''OPENAI_API_KEY'') \<or> unset (environ ''TWILIO_ACCOUNT_SID'')
                  \<or> unset (environ ''TWILIO_AUTH_TOKEN'')
               then Inl EnvironmentError else Inr (serve environ w evs)
           | CreateAllUnicodeDecodeError \<Rightarrow> Inl RuntimeError
           | CreateAllRaises e \<Rightarrow> Inl e)"
  by (simp add: run_process_def startup_def models_import_def module_check_def
      split: create_all_outcome.split)

text \<open>
  C6, as the code has it: the start of the process aborts, and nothing is served, when
  the import of models.py raises (ValueError for a port that is not an integer, the
  exception of \<open>create_all\<close>, for instance with the database unreachable, or RuntimeError
  for its UnicodeDecodeError) or, after that, when an API credential is missing
  (EnvironmentError); otherwise the requests are served. The checkpoint store is set up
  once for every request that has From and To, builds its tools and model, and connects
  with one of the two candidates: the number of setups grows with the number of such
  requests. When the initialisation of a request raises, the request ends with that
  exception, no turn is run, no message is stored and none is sent for it; and a request
  whose turn is run has had its setup before.
\<close>

theorem checkpoint_setup_per_request:
  "run_process environ ienv w evs =
     (if \<not> unset (environ ''DB_PORT'') \<and> int_raises ienv (or_empty (environ ''DB_PORT''))
      then Inl ValueError
      else case create_all ienv of
             CreateAllReturns \<Rightarrow>
               if unset (environ ''OPENAI_API_KEY'') \<or> unset (environ ''TWILIO_ACCOUNT_SID'')
                  \<or> unset (environ ''TWILIO_AUTH_TOKEN'')
               then Inl EnvironmentError else Inr (serve environ w evs)
           | CreateAllUnicodeDecodeError \<Rightarrow> Inl RuntimeError
           | CreateAllRaises e \<Rightarrow> Inl e)
   \<and> setup_calls (snd (serve environ w evs)) =
       setup_calls w + length (filter reaches_setup evs)
   \<and> (fst (Assistant_init env w) = Inl e \<and> \<not> (unset (form_From req) \<or> unset (form_To req)) \<longrightarrow>
        fst (receive_message environ env req w) = Inl e
        \<and> graph_inputs (snd (receive_message environ env req w)) = graph_inputs w
        \<and> graph_effects (snd (receive_message environ env req w)) = graph_effects w
        \<and> outbox (snd (receive_message environ env req w)) = outbox w
        \<and> messages_table (snd (receive_message environ env req w)) = messages_table w)
   \<and> (graph_inputs (snd (receive_message environ env' req' w)) \<noteq> graph_inputs w \<longrightarrow>
        setup_calls (snd (receive_message environ env' req' w)) = setup_calls w + 1)"
  using run_process_startup [of environ ienv w evs] serve_setup_calls [of environ w evs]
    receive_message_init_fails [of env w e req environ]
    receive_message_turn_after_setup [of environ env' req' w]
  by blast

lemma receive_message_runs_turn:
  assumes "\<not> (unset (form_From req) \<or> unset (form_To req))"
    and "Assistant_init env w = (Inr a, w1)"
    and "resolve_body environ env (form_MediaContentType0 req) (form_MediaUrl0 req)
           (form_Body req) = Inr body"
  shows "snd (receive_message environ env req w) =
           snd (generate_response a (turn env) body (or_empty (form_From req))
                  (or_empty (form_To req)) w1)
     \<and> fst (receive_message environ env req w) =
         (case fst (generate_response a (turn env) body (or_empty (form_From req))
                      (or_empty (form_To req)) w1) of
            Inl e \<Rightarrow> Inl (HTTPException 500)
          | Inr message \<Rightarrow> Inr ''Message sent'')"
  using assms by (simp add: receive_message_def split: prod.split sum.split)

lemma hello_addressed: "\<not> (unset (form_From hello_request) \<or> unset (form_To hello_request))"
  by (simp add: hello_request_def unset_def)

lemma hello_body:
  "resolve_body environ env (form_MediaContentType0 hello_request) (form_MediaUrl0 hello_request)
     (form_Body hello_request) = Inr ''hello''"
  by (simp add: resolve_body_def hello_request_def unset_def or_empty_def)

lemma good_init:
  "Assistant_init good_env w = (Inr helper, w\<lparr>setup_calls := setup_calls w + 1\<rparr>)"
  by (simp add: Assistant_init_def good_env_def always_def helper_def Let_def)

lemma down_init: "Assistant_init down_env w = (Inl RuntimeError, w)"
  by (simp add: Assistant_init_def down_env_def good_env_def never_def)

lemma down_request:
  "receive_message environ down_env hello_request w = (Inl RuntimeError, w)"
  using hello_addressed by (simp add: receive_message_def down_init)

lemma greeting_reply:
  "fst (generate_response self greeting_turn p f t w) = Inr ''Hi!''"
  by (simp add: generate_response_def respond_def Let_def greeting_turn_def
      greeting_stream_def aggregate_def)

lemma generate_response_graph_inputs:
  "graph_inputs (snd (generate_response self env p f t w)) =
     graph_inputs w @ [(turn_messages self env p, f)]"
  by (simp add: generate_response_def respond_graph_inputs store_record_frame)

lemma good_request:
  "fst (receive_message environ good_env hello_request w) = Inr ''Message sent''
   \<and> graph_inputs (snd (receive_message environ good_env hello_request w)) =
       graph_inputs w @ [(turn_messages helper greeting_turn ''hello'', ''+5551112222'')]"
proof -
  have t: "turn good_env = greeting_turn"
    by (simp add: good_env_def)
  have f: "or_empty (form_From hello_request) = ''+5551112222''"
    by (simp add: hello_request_def or_empty_def)
  note R = receive_message_runs_turn [OF hello_addressed good_init [of w]
      hello_body [of environ good_env]]
  show ?thesis
    using R by (simp add: t f greeting_reply generate_response_graph_inputs)
qed

text \<open>
  The claim of C6 as stated fails: two requests to one process run the setup twice, and
  after a request whose initialisation raised (no candidate connects) the process, which
  started and did not abort, serves the next request.
\<close>

theorem setup_once_counterexample:
  "setup_calls (snd (serve full_environ empty_world
      [(good_env, hello_request), (good_env, hello_request)])) = 2
   \<and> run_process full_environ clean_import empty_world
        [(down_env, hello_request), (good_env, hello_request)] =
       Inr (serve full_environ empty_world [(down_env, hello_request), (good_env, hello_request)])
   \<and> fst (serve full_environ empty_world [(down_env, hello_request), (good_env, hello_request)])
       = [Inl RuntimeError, Inr ''Message sent'']
   \<and> length (graph_inputs (snd (serve full_environ empty_world
        [(down_env, hello_request), (good_env, hello_request)]))) = 1"
proof -
  have r: "reaches_setup (good_env, hello_request)"
    using hello_addressed by (simp add: reaches_setup_def good_env_def always_def)
  have a: "setup_calls (snd (serve full_environ empty_world
      [(good_env, hello_request), (good_env, hello_request)])) = 2"
    using serve_setup_calls [of full_environ empty_world
        "[(good_env, hello_request), (good_env, hello_request)]"] r
    by (simp add: empty_world_def del: serve.simps)
  have st: "startup full_environ clean_import = Inr ()"
    by (simp add: startup_def models_import_def module_check_def full_environ_def unset_def
        clean_import_def)
  have b: "run_process full_environ clean_import empty_world
        [(down_env, hello_request), (good_env, hello_request)] =
       Inr (serve full_environ empty_world [(down_env, hello_request), (good_env, hello_request)])"
    by (simp add: run_process_def st del: serve.simps)
  obtain r2 w2 where g: "receive_message full_environ good_env hello_request empty_world =
      (r2, w2)"
    by (cases "receive_message full_environ good_env hello_request empty_world")
  have g2: "r2 = Inr ''Message sent''" "length (graph_inputs w2) = 1"
    using good_request [of full_environ empty_world] g by (simp_all add: empty_world_def)
  have s: "serve full_environ empty_world [(down_env, hello_request), (good_env, hello_request)]
      = ([Inl RuntimeError, r2], w2)"
    by (simp add: down_request g)
  from a b s g2 show ?thesis
    by (simp del: serve.simps)
qed

theorem checkpoint_setup_per_request_witness:
  "run_process full_environ clean_import empty_world [(good_env, hello_request)] =
     Inr (serve full_environ empty_world [(good_env, hello_request)])
   \<and> run_process full_environ database_down_import empty_world [(good_env, hello_request)] =
       Inl OperationalError
   \<and> setup_calls (snd (serve full_environ empty_world [(good_env, hello_request)])) = 1
   \<and> fst (Assistant_init down_env empty_world) = Inl RuntimeError
   \<and> fst (receive_message full_environ down_env hello_request empty_world) = Inl RuntimeError
   \<and> graph_inputs (snd (receive_message full_environ down_env hello_request empty_world)) = []
   \<and> graph_inputs (snd (receive_message full_environ good_env hello_request empty_world)) \<noteq> []
   \<and> setup_calls (snd (receive_message full_environ good_env hello_request empty_world)) = 1"
proof -
  note T = checkpoint_setup_per_request [where environ = full_environ and ienv = clean_import
      and w = empty_world and evs = "[(good_env, hello_request)]" and env = down_env
      and e = RuntimeError and req = hello_request and env' = good_env and req' = hello_request]
  note D = checkpoint_setup_per_request [where environ = full_environ
      and ienv = database_down_import and w = empty_world
      and evs = "[(good_env, hello_request)]" and env = down_env
      and e = RuntimeError and req = hello_request and env' = good_env and req' = hello_request]
  have cred: "\<not> (unset (full_environ ''OPENAI_API_KEY'') \<or> unset (full_environ ''TWILIO_ACCOUNT_SID'')
         \<or> unset (full_environ ''TWILIO_AUTH_TOKEN''))"
    by (simp add: full_environ_def unset_def)
  have port: "unset (full_environ ''DB_PORT'')"
    by (simp add: full_environ_def unset_def)
  have ca: "create_all clean_import = CreateAllReturns"
    "create_all database_down_import = CreateAllRaises OperationalError"
    by (simp_all add: clean_import_def database_down_import_def)
  have r: "length (filter reaches_setup [(good_env, hello_request)]) = 1"
    using hello_addressed by (simp add: reaches_setup_def good_env_def always_def)
  have z: "setup_calls empty_world = 0" "graph_inputs empty_world = []"
    by (simp_all add: empty_world_def)
  have h1: "fst (Assistant_init down_env empty_world) = Inl RuntimeError"
    by (simp add: down_init)
  have h3: "graph_inputs (snd (receive_message full_environ good_env hello_request empty_world))
      \<noteq> graph_inputs empty_world"
    using good_request [of full_environ empty_world] by simp
  from T [THEN conjunct1] port ca cred
  have c1: "run_process full_environ clean_import empty_world [(good_env, hello_request)] =
     Inr (serve full_environ empty_world [(good_env, hello_request)])"
    by (simp del: serve.simps)
  from D [THEN conjunct1] port ca
  have c0: "run_process full_environ database_down_import empty_world
      [(good_env, hello_request)] = Inl OperationalError"
    by (simp del: serve.simps)
  from T have "setup_calls (snd (serve full_environ empty_world [(good_env, hello_request)])) =
      setup_calls empty_world + length (filter reaches_setup [(good_env, hello_request)])"
    by blast
  then have c2:
    "setup_calls (snd (serve full_environ empty_world [(good_env, hello_request)])) = 1"
    by (simp only: r z)
  from T h1 hello_addressed have c3:
    "fst (receive_message full_environ down_env hello_request empty_world) = Inl RuntimeError
     \<and> graph_inputs (snd (receive_message full_environ down_env hello_request empty_world)) =
         graph_inputs empty_world"
    by blast
  from T h3 have c4:
    "setup_calls (snd (receive_message full_environ good_env hello_request empty_world)) =
       setup_calls empty_world + 1"
    by blast
  from c1 c0 c2 h1 c3 h3 c4 z show ?thesis
    by (simp del: serve.simps)
qed

end
